theory Spec2Isabelle
  imports Main "HOL-Library.AList"
begin

section \<open>JavaScript values\<close>

text \<open>
  The daemon (\<^verbatim>\<open>roo-daemon.js\<close>, \<^verbatim>\<open>src/unnamed/part_002\<close>) is untyped JavaScript: what it
  receives from the upstream IPC peer and from its TCP clients is whatever \<^verbatim>\<open>JSON.parse\<close>
  produced. A value is therefore one of the JSON shapes, plus \<^verbatim>\<open>undefined\<close> (what a missing
  property reads as). Numbers are the integral ones; an object is the association list of
  its own properties, read with \<open>map_of\<close>.
\<close>

datatype jsval =
    JUndefined
  | JNull
  | JBool bool
  | JNum int
  | JStr string
  | JArr "jsval list"
  | JObj "(string \<times> jsval) list"

datatype js_error = TypeError | SyntaxError | IOError

text \<open>\<^verbatim>\<open>typeof v\<close>: \<^verbatim>\<open>null\<close>, arrays and objects all answer \<^verbatim>\<open>"object"\<close>.\<close>

fun typeof :: "jsval \<Rightarrow> string" where
  "typeof JUndefined = ''undefined''"
| "typeof JNull = ''object''"
| "typeof (JBool b) = ''boolean''"
| "typeof (JNum n) = ''number''"
| "typeof (JStr s) = ''string''"
| "typeof (JArr xs) = ''object''"
| "typeof (JObj ps) = ''object''"

text \<open>Truthiness, as \<^verbatim>\<open>if (v)\<close>, \<^verbatim>\<open>!v\<close>, \<^verbatim>\<open>a || b\<close> and \<^verbatim>\<open>a && b\<close> test it.\<close>

fun truthy :: "jsval \<Rightarrow> bool" where
  "truthy JUndefined = False"
| "truthy JNull = False"
| "truthy (JBool b) = b"
| "truthy (JNum n) = (n \<noteq> 0)"
| "truthy (JStr s) = (s \<noteq> [])"
| "truthy (JArr xs) = True"
| "truthy (JObj ps) = True"

text \<open>Reading a property of \<^verbatim>\<open>null\<close> or \<^verbatim>\<open>undefined\<close> throws a TypeError.\<close>

fun nullish :: "jsval \<Rightarrow> bool" where
  "nullish JUndefined = True"
| "nullish JNull = True"
| "nullish v = False"

text \<open>
  \<^verbatim>\<open>v.name\<close> on a value that is not nullish, for the property names the daemon reads
  (\<^verbatim>\<open>type\<close>, \<^verbatim>\<open>data\<close>, \<^verbatim>\<open>clientId\<close>, \<^verbatim>\<open>eventName\<close>, \<^verbatim>\<open>payload\<close>, \<^verbatim>\<open>message\<close>, \<^verbatim>\<open>text\<close>, \<^verbatim>\<open>tool\<close>,
  \<^verbatim>\<open>question\<close>, \<^verbatim>\<open>suggest\<close>, \<^verbatim>\<open>answer\<close>, \<^verbatim>\<open>mode\<close>, \<^verbatim>\<open>totalTokens\<close>, \<^verbatim>\<open>cwd\<close>): none of them is a
  built-in property of a string, number, boolean or array, so only an object can have one.
\<close>

fun get_prop :: "jsval \<Rightarrow> string \<Rightarrow> jsval" where
  "get_prop (JObj ps) name = (case map_of ps name of None \<Rightarrow> JUndefined | Some v \<Rightarrow> v)"
| "get_prop v name = JUndefined"

text \<open>\<^verbatim>\<open>v[0]\<close> on a value that is not nullish.\<close>

fun index0 :: "jsval \<Rightarrow> jsval" where
  "index0 (JArr xs) = (case xs of [] \<Rightarrow> JUndefined | x # _ \<Rightarrow> x)"
| "index0 (JStr s) = (case s of [] \<Rightarrow> JUndefined | c # _ \<Rightarrow> JStr [c])"
| "index0 (JObj ps) = (case map_of ps ''0'' of None \<Rightarrow> JUndefined | Some v \<Rightarrow> v)"
| "index0 v = JUndefined"

text \<open>
  The elements an array destructuring \<^verbatim>\<open>const [a, b, c, d] = v\<close> iterates: only arrays and
  strings are iterable among these values, everything else throws a TypeError.
\<close>

fun iter_elems :: "jsval \<Rightarrow> jsval list option" where
  "iter_elems (JArr xs) = Some xs"
| "iter_elems (JStr s) = Some (map (\<lambda>c. JStr [c]) s)"
| "iter_elems v = None"

definition nth_or_undefined :: "jsval list \<Rightarrow> nat \<Rightarrow> jsval" where
  "nth_or_undefined xs i = (if i < length xs then xs ! i else JUndefined)"

subsection \<open>Strings\<close>

fun startsWith :: "string \<Rightarrow> string \<Rightarrow> bool" where
  "startsWith s [] = True"
| "startsWith [] (p # ps) = False"
| "startsWith (c # cs) (p # ps) = (c = p \<and> startsWith cs ps)"

fun includes_str :: "string \<Rightarrow> string \<Rightarrow> bool" where
  "includes_str [] p = (p = [])"
| "includes_str (c # cs) p = (startsWith (c # cs) p \<or> includes_str cs p)"

definition digit_char :: "nat \<Rightarrow> char" where
  "digit_char n = ''0123456789'' ! (n mod 10)"

fun show_nat :: "nat \<Rightarrow> string" where
  "show_nat n = (if n < 10 then [digit_char n] else show_nat (n div 10) @ [digit_char (n mod 10)])"

declare show_nat.simps [simp del]

definition show_int :: "int \<Rightarrow> string" where
  "show_int i = (if i < 0 then CHR ''-'' # show_nat (nat (- i)) else show_nat (nat i))"

fun join_comma :: "string list \<Rightarrow> string" where
  "join_comma [] = []"
| "join_comma [s] = s"
| "join_comma (s # t # ss) = s @ '','' @ join_comma (t # ss)"

text \<open>
  A template literal \<^verbatim>\<open>`${v}`\<close> converts \<open>v\<close> to a string, and the conversion can throw:
  an object is converted by its \<^verbatim>\<open>toString\<close>, and an own property of that name, which in a
  parsed value is never a function, leaves nothing to call (\<^verbatim>\<open>valueOf\<close> returns the object
  itself), so the conversion throws a TypeError. An array joins the strings of its
  elements, \<^verbatim>\<open>null\<close> and \<^verbatim>\<open>undefined\<close> as the empty string, and throws when one of them does.
\<close>

fun stringifiable :: "jsval \<Rightarrow> bool" where
  "stringifiable (JObj ps) = (map_of ps ''toString'' = None)"
| "stringifiable (JArr xs) = list_all (\<lambda>x. nullish x \<or> stringifiable x) xs"
| "stringifiable v = True"

text \<open>
  The string of a value that is \<open>stringifiable\<close>. An integral number below \<open>10 ^ 21\<close> in
  magnitude prints its decimal digits; beyond, the engine prints an exponent form, the
  parameter \<open>exponent_form\<close>.
\<close>

fun ToString :: "(int \<Rightarrow> string) \<Rightarrow> jsval \<Rightarrow> string" where
  "ToString exponent_form JUndefined = ''undefined''"
| "ToString exponent_form JNull = ''null''"
| "ToString exponent_form (JBool b) = (if b then ''true'' else ''false'')"
| "ToString exponent_form (JNum n) =
     (if \<bar>n\<bar> < 10 ^ 21 then show_int n else exponent_form n)"
| "ToString exponent_form (JStr s) = s"
| "ToString exponent_form (JArr xs) =
     join_comma (map (\<lambda>x. if nullish x then [] else ToString exponent_form x) xs)"
| "ToString exponent_form (JObj ps) = ''[object Object]''"

section \<open>The daemon: state and effects\<close>

type_synonym sock = nat

datatype level = Info | Warn | Error | Success

text \<open>
  What the daemon does to the outside: a line on its console (\<^verbatim>\<open>this.log\<close>: the level, the
  literal text of the message without its emoji, and the interpolated values in order), a
  write on a client's TCP socket, and a message emitted on the upstream IPC link. A write
  carries the value handed to \<^verbatim>\<open>JSON.stringify\<close>; the text on the wire is its serialisation
  followed by a newline, which leaves out a property whose value is \<^verbatim>\<open>undefined\<close>.
\<close>

datatype effect =
    Log level string "jsval list"
  | Write sock jsval
  | IpcEmit jsval

record daemon =
  connected :: bool
  clientId :: jsval
  currentTask :: jsval
  clients :: "sock list"
  messageHistory :: "jsval list"
  messageCache :: "(string \<times> int) list"
  out :: "effect list"

text \<open>
  \<^verbatim>\<open>this.clients\<close> is a \<^verbatim>\<open>Set\<close>, iterated in insertion order: a list without duplicates.
  \<^verbatim>\<open>this.messageCache\<close> is a \<^verbatim>\<open>Map\<close>: an association list with one entry for a key,
  \<open>AList.update\<close> being \<^verbatim>\<open>Map.prototype.set\<close> (an existing key keeps its place, a new one
  goes last) and the length of the list the \<^verbatim>\<open>size\<close> of the Map.
  \<open>out\<close> collects the effects, oldest first.
\<close>

definition initial :: daemon where
  "initial = \<lparr>connected = False, clientId = JNull, currentTask = JNull, clients = [],
     messageHistory = [], messageCache = [], out = []\<rparr>"

text \<open>
  What a handler reads from its environment: the clock (\<^verbatim>\<open>Date.now()\<close>), whether a write of a
  message on a socket throws, whether the upstream emit throws, \<^verbatim>\<open>JSON.parse\<close>, the
  engine's exponent form of a large number, and the \<^verbatim>\<open>message\<close> of an error it throws.
\<close>

record env =
  now :: int
  write_throws :: "sock \<Rightarrow> jsval \<Rightarrow> bool"
  emit_throws :: bool
  JSON_parse :: "string \<Rightarrow> jsval option"
  exponent_form :: "int \<Rightarrow> string"
  error_text :: "js_error \<Rightarrow> string"

text \<open>A handler returns, or throws with the state its assignments have reached.\<close>

datatype result = Ok daemon | Throw js_error daemon

definition log :: "level \<Rightarrow> string \<Rightarrow> jsval list \<Rightarrow> daemon \<Rightarrow> daemon" where
  "log lvl message args d = d\<lparr>out := out d @ [Log lvl message args]\<rparr>"

subsection \<open>broadcastToClients, sendToClient\<close>

text \<open>
  \<^verbatim>\<open>for (const client of this.clients) { try { client.write(data) } catch { log; delete } }\<close>.
  Deleting the element the iteration is at does not disturb the rest of a \<^verbatim>\<open>Set\<close>'s iteration.
\<close>

fun broadcast_loop :: "(sock \<Rightarrow> jsval \<Rightarrow> bool) \<Rightarrow> jsval \<Rightarrow> sock list \<Rightarrow> daemon \<Rightarrow> daemon" where
  "broadcast_loop wt message [] d = d"
| "broadcast_loop wt message (client # rest) d =
     (if wt client message
      then broadcast_loop wt message rest
             ((log Error ''Error broadcasting to client: '' [] d)
                \<lparr>clients := removeAll client (clients d)\<rparr>)
      else broadcast_loop wt message rest (d\<lparr>out := out d @ [Write client message]\<rparr>))"

definition broadcastToClients :: "env \<Rightarrow> jsval \<Rightarrow> daemon \<Rightarrow> daemon" where
  "broadcastToClients e message d = broadcast_loop (write_throws e) message (clients d) d"

definition sendToClient :: "env \<Rightarrow> sock \<Rightarrow> jsval \<Rightarrow> daemon \<Rightarrow> daemon" where
  "sendToClient e socket message d =
     (if write_throws e socket message
      then log Error ''Error sending to client: '' [] d
      else d\<lparr>out := out d @ [Write socket message]\<rparr>)"

subsection \<open>logWithDeduplication\<close>

text \<open>
  \<^verbatim>\<open>logWithDeduplication(message, level, key)\<close>, with its local constant \<^verbatim>\<open>cooldownPeriod\<close>
  as a parameter; the source fixes it to 3000.
\<close>

definition cache_has :: "(string \<times> int) list \<Rightarrow> string \<Rightarrow> bool" where
  "cache_has cache key = (map_of cache key \<noteq> None)"

definition cache_get :: "(string \<times> int) list \<Rightarrow> string \<Rightarrow> int" where
  "cache_get cache key = (case map_of cache key of Some t \<Rightarrow> t | None \<Rightarrow> 0)"

definition dedup_gate :: "(string \<times> int) list \<Rightarrow> string \<Rightarrow> int \<Rightarrow> int \<Rightarrow> bool" where
  "dedup_gate cache key now_ms cooldown =
     (\<not> cache_has cache key \<or> now_ms - cache_get cache key > cooldown)"

definition logWithDeduplication_cd ::
    "int \<Rightarrow> env \<Rightarrow> string \<Rightarrow> jsval list \<Rightarrow> level \<Rightarrow> string \<Rightarrow> daemon \<Rightarrow> daemon" where
  "logWithDeduplication_cd cooldownPeriod e message args lvl key d =
     (if dedup_gate (messageCache d) key (now e) cooldownPeriod
      then
        (let d1 = log lvl message args d;
             cache1 = AList.update key (now e) (messageCache d1)
         in if length cache1 > 100
            then (let cutoff = now e - cooldownPeriod * 2
                  in d1\<lparr>messageCache := filter (\<lambda>(cacheKey, timestamp). \<not> timestamp < cutoff) cache1\<rparr>)
            else d1\<lparr>messageCache := cache1\<rparr>)
      else d)"

definition logWithDeduplication ::
    "env \<Rightarrow> string \<Rightarrow> jsval list \<Rightarrow> level \<Rightarrow> string \<Rightarrow> daemon \<Rightarrow> daemon" where
  "logWithDeduplication = logWithDeduplication_cd 3000"

subsection \<open>formatQuestionMessage\<close>

text \<open>
  \<^verbatim>\<open>data.suggest.forEach((suggestion, index) => ...)\<close>: reading \<^verbatim>\<open>suggestion.mode\<close> of a
  \<^verbatim>\<open>null\<close> element throws, and so does a \<^verbatim>\<open>mode\<close> or an \<^verbatim>\<open>answer\<close> the template literals
  cannot convert, after the lines of the elements before it were logged.
\<close>

fun suggest_loop :: "env \<Rightarrow> jsval list \<Rightarrow> nat \<Rightarrow> daemon \<Rightarrow> result" where
  "suggest_loop e [] index d = Ok d"
| "suggest_loop e (suggestion # rest) index d =
     (if nullish suggestion then Throw TypeError d
      else if truthy (get_prop suggestion ''mode'') \<and> \<not> stringifiable (get_prop suggestion ''mode'')
      then Throw TypeError d
      else if \<not> stringifiable (get_prop suggestion ''answer'') then Throw TypeError d
      else
        (let mode = (if truthy (get_prop suggestion ''mode'')
                     then '' ['' @ ToString (exponent_form e) (get_prop suggestion ''mode'') @ '']''
                     else [])
         in suggest_loop e rest (Suc index)
              (log Info ''   . '' [JNum (int index + 1), get_prop suggestion ''answer'', JStr mode] d)))"

definition formatQuestionMessage :: "env \<Rightarrow> jsval \<Rightarrow> daemon \<Rightarrow> result" where
  "formatQuestionMessage e qdata d =
     (if nullish qdata then Throw TypeError d
      else if truthy (get_prop qdata ''question'') then
        (if \<not> stringifiable (get_prop qdata ''question'') then Throw TypeError d
         else
           (let questionKey = ''question:'' @ ToString (exponent_form e) (get_prop qdata ''question'')
            in if dedup_gate (messageCache d) questionKey (now e) 5000
               then
                 (let d1 = log Warn [] [get_prop qdata ''question''] d;
                      r = (case get_prop qdata ''suggest'' of
                             JArr suggestions \<Rightarrow>
                               suggest_loop e suggestions 0 (log Info ''Suggestions:'' [] d1)
                           | _ \<Rightarrow> Ok d1)
                  in case r of
                       Throw err d2 \<Rightarrow> Throw err d2
                     | Ok d2 \<Rightarrow>
                         Ok (d2\<lparr>messageCache := AList.update questionKey (now e) (messageCache d2)\<rparr>))
               else Ok d))
      else Ok d)"

subsection \<open>formatAndLogMessage\<close>

text \<open>
  \<^verbatim>\<open>message.text.startsWith('{')\<close> is a call of a method only strings have: on any other
  truthy value it throws. The \<^verbatim>\<open>catch\<close> around \<^verbatim>\<open>JSON.parse\<close> and \<^verbatim>\<open>formatQuestionMessage\<close>
  takes whatever either throws and logs the text with deduplication instead. The arguments
  of \<^verbatim>\<open>logWithDeduplication\<close> and \<^verbatim>\<open>log\<close> are template literals, evaluated before the call.
\<close>

definition formatAndLogMessage :: "env \<Rightarrow> jsval \<Rightarrow> daemon \<Rightarrow> result" where
  "formatAndLogMessage e message d =
     (if \<not> truthy message then Ok d
      else
        (let ty = get_prop message ''type''; text = get_prop message ''text''
         in if ty = JStr ''say'' then
              (if truthy text then
                 (case text of
                    JStr s \<Rightarrow>
                      (if startsWith s ''{'' \<and> includes_str s ''question'' then
                         (case JSON_parse e s of
                            None \<Rightarrow> Ok (logWithDeduplication e ''Roo: '' [text] Info s d)
                          | Some qdata \<Rightarrow>
                              (case formatQuestionMessage e qdata d of
                                 Ok d1 \<Rightarrow> Ok d1
                               | Throw err d1 \<Rightarrow> Ok (logWithDeduplication e ''Roo: '' [text] Info s d1)))
                       else Ok (logWithDeduplication e ''Roo: '' [text] Info s d))
                  | _ \<Rightarrow> Throw TypeError d)
               else Ok d)
            else if ty = JStr ''ask'' then
              (if truthy text then
                 (if \<not> stringifiable text then Throw TypeError d
                  else Ok (logWithDeduplication e ''Roo asks: '' [text] Warn
                             (''ask:'' @ ToString (exponent_form e) text) d))
               else Ok d)
            else if ty = JStr ''tool'' then
              (if truthy (get_prop message ''tool'') then
                 (if \<not> stringifiable (get_prop message ''tool'') then Throw TypeError d
                  else Ok (log Info ''Tool: '' [get_prop message ''tool''] d))
               else Ok d)
            else
              (if truthy text then
                 (if \<not> stringifiable ty \<or> \<not> stringifiable text then Throw TypeError d
                  else Ok (logWithDeduplication e '': '' [ty, text] Info
                             (ToString (exponent_form e) ty @ '':'' @ ToString (exponent_form e) text) d))
               else Ok d)))"

subsection \<open>handleTaskEvent\<close>

text \<open>
  \<^verbatim>\<open>taskStarted\<close> assigns \<^verbatim>\<open>this.currentTask\<close> before the template literal of its log line is
  evaluated, so a throw there leaves the assignment done.
\<close>

definition handleTaskEvent :: "env \<Rightarrow> jsval \<Rightarrow> daemon \<Rightarrow> result" where
  "handleTaskEvent e event d =
     (if nullish event then Throw TypeError d
      else
        (let eventName = get_prop event ''eventName''; payload = get_prop event ''payload''
         in if eventName = JStr ''taskStarted'' then
              (if nullish payload then Throw TypeError d
               else if \<not> stringifiable (index0 payload)
               then Throw TypeError (d\<lparr>currentTask := index0 payload\<rparr>)
               else Ok (log Success ''Task started: '' [index0 payload] (d\<lparr>currentTask := index0 payload\<rparr>)))
            else if eventName = JStr ''taskCompleted'' then
              (case iter_elems payload of
                 None \<Rightarrow> Throw TypeError d
               | Some elems \<Rightarrow>
                   (let taskId = nth_or_undefined elems 0;
                        tokenUsage = nth_or_undefined elems 1
                    in if \<not> stringifiable taskId then Throw TypeError d
                       else
                         (let d1 = log Success ''Task completed: '' [taskId] d
                          in if truthy tokenUsage \<and> truthy (get_prop tokenUsage ''totalTokens'') then
                               (if \<not> stringifiable (get_prop tokenUsage ''totalTokens'')
                                then Throw TypeError d1
                                else Ok ((log Info ''Tokens used: '' [get_prop tokenUsage ''totalTokens''] d1)
                                           \<lparr>currentTask := JNull\<rparr>))
                             else Ok (d1\<lparr>currentTask := JNull\<rparr>))))
            else if eventName = JStr ''taskAborted'' then
              (if nullish payload then Throw TypeError d
               else if \<not> stringifiable (index0 payload) then Throw TypeError d
               else Ok ((log Warn ''Task aborted: '' [index0 payload] d)\<lparr>currentTask := JNull\<rparr>))
            else if eventName = JStr ''message'' then
              (if nullish payload then Throw TypeError d
               else
                 (let messageData = index0 payload
                  in if nullish messageData then Throw TypeError d
                     else if truthy (get_prop messageData ''message'')
                     then formatAndLogMessage e (get_prop messageData ''message'') d
                     else Ok d))
            else if eventName = JStr ''taskTokenUsageUpdated'' then Ok d
            else if \<not> stringifiable eventName then Throw TypeError d
            else Ok (log Info [] [eventName] d)))"

subsection \<open>The upstream link: onIPCConnect, onIPCDisconnect, onIPCMessage\<close>

definition onIPCConnect :: "env \<Rightarrow> daemon \<Rightarrow> daemon" where
  "onIPCConnect e d =
     broadcastToClients e
       (JObj [(''type'', JStr ''status''),
              (''data'', JObj [(''connected'', JBool True), (''message'', JStr ''Connected to Roo Code'')])])
       (log Success ''Connected to Roo Code IPC server'' [] (d\<lparr>connected := True\<rparr>))"

definition onIPCDisconnect :: "env \<Rightarrow> daemon \<Rightarrow> daemon" where
  "onIPCDisconnect e d =
     broadcastToClients e
       (JObj [(''type'', JStr ''status''),
              (''data'', JObj [(''connected'', JBool False), (''message'', JStr ''Disconnected from Roo Code'')])])
       (log Warn ''Disconnected from Roo Code IPC server'' [] (d\<lparr>connected := False, clientId := JNull\<rparr>))"

text \<open>\<^verbatim>\<open>xs.slice(-n)\<close>: the last \<open>n\<close> elements, all of them when there are fewer.\<close>

definition slice_last :: "nat \<Rightarrow> 'a list \<Rightarrow> 'a list" where
  "slice_last n xs = drop (length xs - n) xs"

text \<open>
  The three branches on \<^verbatim>\<open>data.type\<close>. \<^verbatim>\<open>data.data?.clientId || data.clientId\<close> reads
  \<^verbatim>\<open>undefined\<close> through a nullish \<^verbatim>\<open>data.data\<close>; \<^verbatim>\<open>this.clientId\<close> is assigned before its log
  line is built.
\<close>

definition dispatchIPC :: "env \<Rightarrow> jsval \<Rightarrow> daemon \<Rightarrow> result" where
  "dispatchIPC e msg d =
     (let ty = get_prop msg ''type''
      in if ty = JStr ''ack'' \<or> ty = JStr ''Ack'' then
           (let inner = (if nullish (get_prop msg ''data'') then JUndefined
                         else get_prop (get_prop msg ''data'') ''clientId'');
                cid = (if truthy inner then inner else get_prop msg ''clientId'')
            in if \<not> stringifiable cid then Throw TypeError (d\<lparr>clientId := cid\<rparr>)
               else
                 Ok (broadcastToClients e
                       (JObj [(''type'', JStr ''ready''),
                              (''data'', JObj [(''clientId'', cid),
                                               (''message'', JStr ''Ready to accept commands'')])])
                       (log Success ''Received client ID: '' [cid] (d\<lparr>clientId := cid\<rparr>))))
         else if ty = JStr ''taskEvent'' \<or> ty = JStr ''TaskEvent'' then
           handleTaskEvent e (if truthy (get_prop msg ''data'') then get_prop msg ''data'' else msg) d
         else Ok (log Warn ''Unknown IPC message type: '' [ty] d))"

text \<open>
  \<^verbatim>\<open>onIPCMessage(data)\<close>. Its first line builds \<^verbatim>\<open>`Received IPC message: ${data.type}`\<close>: it
  throws on a nullish message and on a type the template literal cannot convert, before
  anything is stored or broadcast.
\<close>

definition onIPCMessage :: "env \<Rightarrow> jsval \<Rightarrow> daemon \<Rightarrow> result" where
  "onIPCMessage e msg d =
     (if nullish msg then Throw TypeError d
      else if \<not> stringifiable (get_prop msg ''type'') then Throw TypeError d
      else
        (case dispatchIPC e msg (log Info ''Received IPC message: '' [get_prop msg ''type''] d) of
           Throw err d1 \<Rightarrow> Throw err d1
         | Ok d1 \<Rightarrow>
             (let history = messageHistory d1 @ [msg];
                  d2 = d1\<lparr>messageHistory := (if length history > 1000 then slice_last 1000 history else history)\<rparr>
              in Ok (broadcastToClients e (JObj [(''type'', JStr ''ipcMessage''), (''data'', msg)]) d2))))"

subsection \<open>The TCP side: sendTaskToRoo, handleClientMessage, handleClientConnection\<close>

definition taskCommand :: "jsval \<Rightarrow> jsval \<Rightarrow> jsval \<Rightarrow> jsval" where
  "taskCommand cid text cwd =
     JObj [(''type'', JStr ''TaskCommand''),
           (''origin'', JStr ''client''),
           (''clientId'', cid),
           (''data'', JObj [(''commandName'', JStr ''StartNewTask''),
                            (''data'', JObj [(''text'', text),
                                             (''configuration'',
                                                JObj (if truthy cwd then [(''workingDirectory'', cwd)] else [])),
                                             (''images'', JArr []),
                                             (''newTab'', JBool False)])])]"

text \<open>
  The \<^verbatim>\<open>catch\<close> of \<^verbatim>\<open>sendTaskToRoo\<close>: a console line and an \<^verbatim>\<open>error\<close> broadcast, both with the
  \<^verbatim>\<open>message\<close> of the error caught.
\<close>

definition sendTask_failed :: "env \<Rightarrow> js_error \<Rightarrow> daemon \<Rightarrow> daemon" where
  "sendTask_failed e err d =
     broadcastToClients e
       (JObj [(''type'', JStr ''error''),
              (''data'', JObj [(''message'', JStr (''Error sending task: '' @ error_text e err))])])
       (log Error ''Error sending task: '' [JStr (error_text e err)] d)"

text \<open>
  The two guards return before the \<^verbatim>\<open>try\<close>. Inside it the template literals of the console
  lines (\<^verbatim>\<open>cwd\<close>, then \<^verbatim>\<open>text\<close>) and the upstream emit can throw; the \<^verbatim>\<open>catch\<close> turns that
  into an error broadcast.
\<close>

definition sendTaskToRoo :: "env \<Rightarrow> jsval \<Rightarrow> jsval \<Rightarrow> daemon \<Rightarrow> daemon" where
  "sendTaskToRoo e text cwd d =
     (if \<not> connected d then
        broadcastToClients e
          (JObj [(''type'', JStr ''error''), (''data'', JObj [(''message'', JStr ''Not connected to Roo Code'')])])
          (log Error ''Cannot send task: not connected to Roo Code'' [] d)
      else if \<not> truthy (clientId d) then
        broadcastToClients e
          (JObj [(''type'', JStr ''error''),
                 (''data'', JObj [(''message'', JStr ''Connection not fully established'')])])
          (log Error ''Cannot send task: no client ID'' [] d)
      else if truthy cwd \<and> \<not> stringifiable cwd then sendTask_failed e TypeError d
      else
        (let d1 = (if truthy cwd then log Info ''Working directory: '' [cwd] d else d)
         in if \<not> stringifiable text then sendTask_failed e TypeError d1
            else
              (let d2 = log Success ''Sending task: '' [text] d1;
                   d3 = (if truthy cwd then log Info ''CWD: '' [cwd] d2 else d2)
               in if emit_throws e then sendTask_failed e IOError d3
                  else
                    broadcastToClients e
                      (JObj [(''type'', JStr ''taskSent''),
                             (''data'', JObj [(''text'', text), (''cwd'', cwd), (''timestamp'', JNum (now e))])])
                      (d3\<lparr>out := out d3 @ [IpcEmit (taskCommand (clientId d3) text cwd)]\<rparr>))))"

text \<open>
  \<^verbatim>\<open>handleClientMessage(socket, message)\<close>. The line of the last branch is built from
  \<^verbatim>\<open>message.type\<close> by a template literal.
\<close>

definition handleClientMessage :: "env \<Rightarrow> sock \<Rightarrow> jsval \<Rightarrow> daemon \<Rightarrow> result" where
  "handleClientMessage e socket message d =
     (if nullish message then Throw TypeError d
      else if get_prop message ''type'' = JStr ''sendTask'' then
        (if nullish (get_prop message ''data'') then Throw TypeError d
         else Ok (sendTaskToRoo e (get_prop (get_prop message ''data'') ''text'')
                    (get_prop (get_prop message ''data'') ''cwd'') d))
      else if get_prop message ''type'' = JStr ''ping'' then
        Ok (sendToClient e socket
              (JObj [(''type'', JStr ''pong''), (''data'', JObj [(''timestamp'', JNum (now e))])]) d)
      else if \<not> stringifiable (get_prop message ''type'') then Throw TypeError d
      else Ok (log Warn ''Unknown client message type: '' [get_prop message ''type''] d))"


definition onClientClose :: "sock \<Rightarrow> daemon \<Rightarrow> daemon" where
  "onClientClose socket d =
     (log Warn ''CLI client disconnected: '' [JNum (int socket)] d)\<lparr>clients := removeAll socket (clients d)\<rparr>"

definition onClientError :: "sock \<Rightarrow> daemon \<Rightarrow> daemon" where
  "onClientError socket d =
     (log Error ''Client error : '' [JNum (int socket)] d)\<lparr>clients := removeAll socket (clients d)\<rparr>"

definition set_add :: "'a \<Rightarrow> 'a list \<Rightarrow> 'a list" where
  "set_add x xs = (if x \<in> set xs then xs else xs @ [x])"

definition handleClientConnection :: "env \<Rightarrow> sock \<Rightarrow> daemon \<Rightarrow> daemon" where
  "handleClientConnection e socket d =
     (let d1 = (log Success ''CLI client connected: '' [JNum (int socket)] d)
                 \<lparr>clients := set_add socket (clients d)\<rparr>;
          d2 = sendToClient e socket
                 (JObj [(''type'', JStr ''welcome''),
                        (''data'', JObj [(''connected'', JBool (connected d1)),
                                         (''clientId'', clientId d1),
                                         (''currentTask'', currentTask d1),
                                         (''messageHistory'', JArr (slice_last 10 (messageHistory d1)))])])
                 d1
      in if \<not> connected d2 \<or> \<not> truthy (clientId d2) then
           sendToClient e socket
             (JObj [(''type'', JStr ''status''),
                    (''data'', JObj [(''connected'', JBool False),
                                     (''message'',
                                        JStr (if connected d2
                                              then ''Connected to Roo IPC but waiting for acknowledgment''
                                              else ''Not connected to Roo IPC - check ROO_CODE_IPC_SOCKET_PATH''))])])
             d2
         else d2)"

section \<open>The IPC server of the extension\<close>

text \<open>
  \<^verbatim>\<open>packages/ipc/src/ipc-server.ts\<close>. The message types and origins are the members of
  \<^verbatim>\<open>IpcMessageType\<close> and \<^verbatim>\<open>IpcOrigin\<close> the sources name. A parsed message of origin
  \<^verbatim>\<open>Client\<close> carries its \<^verbatim>\<open>clientId\<close>, a string (the key type of the server's
  \<^verbatim>\<open>Map<string, Socket>\<close>); one of origin \<^verbatim>\<open>Server\<close> has none (the \<^verbatim>\<open>Ack\<close> the server builds).
\<close>

datatype IpcMessageType = Connect | Disconnect | Ack | TaskCommand | TaskEvent

datatype IpcOrigin = Client | Server

datatype IpcMessage =
    FromClient IpcMessageType string jsval
  | FromServer IpcMessageType jsval

fun origin :: "IpcMessage \<Rightarrow> IpcOrigin" where
  "origin (FromClient ty cid dat) = Client"
| "origin (FromServer ty dat) = Server"

datatype server_event = ConnectEvent string | DisconnectEvent string | TaskCommandEvent string jsval

datatype log_arg = Value jsval | Message IpcMessage | Text string | Count nat

text \<open>
  What the server does to the outside: a call of its logger, a message sent on one socket
  (\<^verbatim>\<open>ipc.server.emit(socket, "message", message)\<close>), a message sent on every socket the
  transport holds (\<^verbatim>\<open>ipc.server.broadcast\<close>), an event handed to the listeners of the
  \<^verbatim>\<open>EventEmitter\<close> (\<^verbatim>\<open>this.emit\<close>).
\<close>

datatype server_effect =
    ServerLog string "log_arg list"
  | Emit sock IpcMessage
  | Broadcast IpcMessage
  | Event server_event

record server =
  registry :: "(string \<times> sock) list"
  isListening :: bool
  trace :: "server_effect list"

text \<open>\<open>registry\<close> is \<^verbatim>\<open>this._clients\<close>, a \<^verbatim>\<open>Map\<close> from clientId to socket.\<close>

record process =
  pid :: int
  ppid :: int

definition server_log :: "string \<Rightarrow> log_arg list \<Rightarrow> server \<Rightarrow> server" where
  "server_log text args s = s\<lparr>trace := trace s @ [ServerLog text args]\<rparr>"

datatype target = ById string | BySocket sock

definition send :: "target \<Rightarrow> IpcMessage \<Rightarrow> server \<Rightarrow> server" where
  "send client message s =
     (let s1 = server_log ''[server#send] message ='' [Message message] s
      in case client of
           ById cid \<Rightarrow>
             (case map_of (registry s1) cid of
                Some socket \<Rightarrow> s1\<lparr>trace := trace s1 @ [Emit socket message]\<rparr>
              | None \<Rightarrow> s1)
         | BySocket socket \<Rightarrow> s1\<lparr>trace := trace s1 @ [Emit socket message]\<rparr>)"

definition broadcast :: "IpcMessage \<Rightarrow> server \<Rightarrow> server" where
  "broadcast message s = s\<lparr>trace := trace s @ [Broadcast message]\<rparr>"

definition ackData :: "process \<Rightarrow> string \<Rightarrow> jsval" where
  "ackData p cid = JObj [(''clientId'', JStr cid), (''pid'', JNum (pid p)), (''ppid'', JNum (ppid p))]"

text \<open>
  The registration block of \<^verbatim>\<open>onMessage\<close>, entered for every message of origin \<^verbatim>\<open>Client\<close>:
  \<^verbatim>\<open>if (!this._clients.has(clientId)) { set; log; send(socket, Ack); emit(Connect) }\<close>.
\<close>

definition register_client :: "process \<Rightarrow> string \<Rightarrow> sock \<Rightarrow> server \<Rightarrow> server" where
  "register_client p cid socket s =
     (if map_of (registry s) cid = None then
        (let s1 = s\<lparr>registry := AList.update cid socket (registry s)\<rparr>;
             s2 = server_log ''[server#onMessage] Registered new client: . Total clients: ''
                    [Text cid, Count (length (registry s1))] s1;
             s3 = send (BySocket socket) (FromServer Ack (ackData p cid)) s2
         in s3\<lparr>trace := trace s3 @ [Event (ConnectEvent cid)]\<rparr>)
      else s)"

text \<open>
  \<^verbatim>\<open>onMessage(data, socket)\<close>. \<^verbatim>\<open>ipcMessageSchema\<close> comes from \<^verbatim>\<open>@roo-code/types\<close>, which is
  not among the sources: its \<^verbatim>\<open>safeParse\<close> is the parameter \<open>safeParse\<close>, \<open>None\<close> when
  \<^verbatim>\<open>result.success\<close> is false.
\<close>

definition onMessage ::
    "(jsval \<Rightarrow> IpcMessage option) \<Rightarrow> process \<Rightarrow> jsval \<Rightarrow> sock \<Rightarrow> server \<Rightarrow> server" where
  "onMessage safeParse p rawdata socket s =
     (let s0 = server_log ''[server#onMessage] Received data:'' [Value rawdata] s
      in if typeof rawdata \<noteq> ''object'' then
           server_log ''[server#onMessage] invalid data type'' [Text (typeof rawdata)] s0
         else
           (case safeParse rawdata of
              None \<Rightarrow> server_log ''[server#onMessage] invalid payload'' [Value rawdata] s0
            | Some payload \<Rightarrow>
                (let s1 = server_log ''[server#onMessage] Parsed payload:'' [Message payload] s0
                 in case payload of
                      FromServer ty dat \<Rightarrow> s1
                    | FromClient ty cid dat \<Rightarrow>
                        (let s2 = register_client p cid socket s1
                         in if ty = TaskCommand then
                              (let s3 = server_log ''[server#onMessage] Emitting TaskCommand for client: ''
                                          [Text cid] s2
                               in s3\<lparr>trace := trace s3 @ [Event (TaskCommandEvent cid dat)]\<rparr>)
                            else server_log ''[server#onMessage] unhandled payload:'' [Message payload] s2))))"

text \<open>
  \<^verbatim>\<open>onDisconnect(destroyedSocket)\<close>: the first entry bound to the socket is deleted; the
  \<^verbatim>\<open>Disconnect\<close> event is emitted when the clientId found is truthy (not the empty string).
\<close>

fun find_client :: "(string \<times> sock) list \<Rightarrow> sock \<Rightarrow> string option" where
  "find_client [] destroyed = None"
| "find_client ((cid, socket) # rest) destroyed =
     (if socket = destroyed then Some cid else find_client rest destroyed)"

definition onDisconnect :: "sock \<Rightarrow> server \<Rightarrow> server" where
  "onDisconnect destroyedSocket s =
     (case find_client (registry s) destroyedSocket of
        None \<Rightarrow>
          server_log ''[server#socket.disconnected] clientId = , # clients = ''
            [Value JUndefined, Count (length (registry s))] s
      | Some cid \<Rightarrow>
          (let s1 = s\<lparr>registry := AList.delete cid (registry s)\<rparr>;
               s2 = server_log ''[server#socket.disconnected] clientId = , # clients = ''
                      [Text cid, Count (length (registry s1))] s1
           in if cid \<noteq> [] then s2\<lparr>trace := trace s2 @ [Event (DisconnectEvent cid)]\<rparr> else s2))"

definition listen :: "server \<Rightarrow> server" where
  "listen s = s\<lparr>isListening := True\<rparr>"

definition onConnect :: "sock \<Rightarrow> server \<Rightarrow> server" where
  "onConnect socket s =
     server_log ''[server#onConnect] New socket connected. Waiting for identification. Total clients: ''
       [Count (length (registry s))] s"


text \<open>
  Modelled from the spec: the enum \<^verbatim>\<open>IpcMessageType\<close> (package \<^verbatim>\<open>@roo-code/types\<close>) is missing from
  the sources. The recognised values of \<^verbatim>\<open>type\<close> are the names of the members the sources use,
  as section 6 of the specification writes them (\<^verbatim>\<open>"Ack"\<close>, \<^verbatim>\<open>"TaskCommand"\<close>, \<^verbatim>\<open>"TaskEvent"\<close>,
  \<^verbatim>\<open>"Connect"\<close>, \<^verbatim>\<open>"Disconnect"\<close>).
\<close>

definition parse_type :: "jsval \<Rightarrow> IpcMessageType option" where
  "parse_type v =
     (if v = JStr ''Connect'' then Some Connect
      else if v = JStr ''Disconnect'' then Some Disconnect
      else if v = JStr ''Ack'' then Some Ack
      else if v = JStr ''TaskCommand'' then Some TaskCommand
      else if v = JStr ''TaskEvent'' then Some TaskEvent
      else None)"

text \<open>
  Modelled from the spec: \<^verbatim>\<open>ipcMessageSchema\<close> (package \<^verbatim>\<open>@roo-code/types\<close>) is missing from the
  sources. Section 4.1 of the specification: parsing fails when the content is not an
  object, when a required field (\<^verbatim>\<open>type\<close>, \<^verbatim>\<open>origin\<close>) is missing, or when \<^verbatim>\<open>type\<close> is not a
  recognised enum value; section 6: \<^verbatim>\<open>origin\<close> is \<^verbatim>\<open>"server"\<close> or \<^verbatim>\<open>"client"\<close>, \<^verbatim>\<open>clientId\<close> is a
  string, \<^verbatim>\<open>data\<close> is left opaque.
\<close>

definition spec_safeParse :: "jsval \<Rightarrow> IpcMessage option" where
  "spec_safeParse v =
     (case v of
        JObj ps \<Rightarrow>
          (case parse_type (get_prop v ''type'') of
             None \<Rightarrow> None
           | Some ty \<Rightarrow>
               (if get_prop v ''origin'' = JStr ''server'' then Some (FromServer ty (get_prop v ''data''))
                else if get_prop v ''origin'' = JStr ''client'' then
                  (case get_prop v ''clientId'' of
                     JStr cid \<Rightarrow> Some (FromClient ty cid (get_prop v ''data''))
                   | _ \<Rightarrow> None)
                else None))
      | _ \<Rightarrow> None)"

section \<open>Observations\<close>

text \<open>
  What the properties below look at. On the daemon: the messages written on one client's
  socket, in order; the effects a handler added; the effect of one turn of the broadcast
  loop; the state a handler left and whether it returned; the number of console lines with
  a given text. \<open>logs_only d d'\<close>: from \<open>d\<close> to \<open>d'\<close> only console lines were added, and
  only the current task and the cache may differ.
\<close>

fun deliveries :: "sock \<Rightarrow> effect list \<Rightarrow> jsval list" where
  "deliveries c [] = []"
| "deliveries c (Write s m # es) = (if s = c then m # deliveries c es else deliveries c es)"
| "deliveries c (x # es) = deliveries c es"

definition new_effects :: "daemon \<Rightarrow> daemon \<Rightarrow> effect list" where
  "new_effects d d' = drop (length (out d)) (out d')"

definition broadcast_effect :: "(sock \<Rightarrow> jsval \<Rightarrow> bool) \<Rightarrow> jsval \<Rightarrow> sock \<Rightarrow> effect" where
  "broadcast_effect wt m c = (if wt c m then Log Error ''Error broadcasting to client: '' [] else Write c m)"

fun is_log :: "effect \<Rightarrow> bool" where
  "is_log (Log lvl label args) = True"
| "is_log x = False"

fun is_ipc_emit :: "effect \<Rightarrow> bool" where
  "is_ipc_emit (IpcEmit m) = True"
| "is_ipc_emit x = False"

fun count_logs :: "string \<Rightarrow> effect list \<Rightarrow> nat" where
  "count_logs label [] = 0"
| "count_logs label (Log lvl label' args # es) =
     (if label' = label then Suc (count_logs label es) else count_logs label es)"
| "count_logs label (x # es) = count_logs label es"

fun result_state :: "result \<Rightarrow> daemon" where
  "result_state (Ok d) = d"
| "result_state (Throw err d) = d"

fun returned :: "result \<Rightarrow> bool" where
  "returned (Ok d) = True"
| "returned (Throw err d) = False"

definition logs_only :: "daemon \<Rightarrow> daemon \<Rightarrow> bool" where
  "logs_only d d' \<longleftrightarrow>
     connected d' = connected d \<and> clientId d' = clientId d \<and> clients d' = clients d \<and>
     messageHistory d' = messageHistory d \<and> (\<exists>ls. out d' = out d @ ls \<and> list_all is_log ls)"

text \<open>
  The upstream link hands its messages to \<^verbatim>\<open>onIPCMessage\<close> one after the other, each with
  the environment of its moment; a handler that throws ends the run.
\<close>

fun run_ipc :: "(env \<times> jsval) list \<Rightarrow> daemon \<Rightarrow> result" where
  "run_ipc [] d = Ok d"
| "run_ipc ((e, msg) # rest) d =
     (case onIPCMessage e msg d of Ok d1 \<Rightarrow> run_ipc rest d1 | Throw err d1 \<Rightarrow> Throw err d1)"


text \<open>
  A quiet environment: clock at 0, no write and no emit throws, \<^verbatim>\<open>JSON.parse\<close> rejecting
  every text, every error with the message "error".
\<close>

definition env0 :: env where
  "env0 = \<lparr>now = 0, write_throws = (\<lambda>c m. False), emit_throws = False, JSON_parse = (\<lambda>s. None),
            exponent_form = show_int, error_text = (\<lambda>err. ''error'')\<rparr>"

text \<open>An environment in which every write on a socket throws.\<close>

definition env_writes_fail :: env where
  "env_writes_fail = env0\<lparr>write_throws := (\<lambda>c m. True)\<rparr>"

text \<open>
  On the server: the effects a handler added; what \<^verbatim>\<open>onMessage\<close> does with a client
  message after the registration step (the \<^verbatim>\<open>switch\<close> on its type); an empty listening
  server, a process, and the \<^verbatim>\<open>Connect\<close> envelope of a client \<^verbatim>\<open>c1\<close>.
\<close>

definition new_trace :: "server \<Rightarrow> server \<Rightarrow> server_effect list" where
  "new_trace s s' = drop (length (trace s)) (trace s')"

fun is_emit :: "server_effect \<Rightarrow> bool" where
  "is_emit (Emit socket message) = True"
| "is_emit x = False"

definition command_effects :: "IpcMessageType \<Rightarrow> string \<Rightarrow> jsval \<Rightarrow> server_effect list" where
  "command_effects ty cid dat =
     (if ty = TaskCommand
      then [ServerLog ''[server#onMessage] Emitting TaskCommand for client: '' [Text cid],
            Event (TaskCommandEvent cid dat)]
      else [ServerLog ''[server#onMessage] unhandled payload:'' [Message (FromClient ty cid dat)]])"

definition server0 :: server where
  "server0 = \<lparr>registry = [], isListening = True, trace = []\<rparr>"

definition process0 :: process where
  "process0 = \<lparr>pid = 4242, ppid = 1\<rparr>"

definition connect_c1 :: jsval where
  "connect_c1 = JObj [(''type'', JStr ''Connect''), (''origin'', JStr ''client''), (''clientId'', JStr ''c1'')]"

section \<open>Broadcast\<close>

lemma broadcast_loop_out:
  "out (broadcast_loop wt m cs d) = out d @ map (broadcast_effect wt m) cs"
  by (induction cs arbitrary: d) (simp_all add: broadcast_effect_def log_def)

lemma broadcast_loop_clients:
  "clients (broadcast_loop wt m cs d) = filter (\<lambda>c. \<not> (c \<in> set cs \<and> wt c m)) (clients d)"
proof (induction cs arbitrary: d)
  case Nil
  then show ?case by simp
next
  case (Cons c cs)
  show ?case
  proof (cases "wt c m")
    case True
    then show ?thesis
      by (simp add: Cons log_def removeAll_filter_not_eq) (rule filter_cong, auto)
  next
    case False
    then show ?thesis
      by (simp add: Cons) (rule filter_cong, auto)
  qed
qed

lemma broadcast_loop_frame:
  "connected (broadcast_loop wt m cs d) = connected d"
  "clientId (broadcast_loop wt m cs d) = clientId d"
  "currentTask (broadcast_loop wt m cs d) = currentTask d"
  "messageHistory (broadcast_loop wt m cs d) = messageHistory d"
  "messageCache (broadcast_loop wt m cs d) = messageCache d"
  by (induction cs arbitrary: d; simp add: log_def)+

lemma broadcast_loop_eq:
  "broadcast_loop wt m cs d =
     d\<lparr>clients := filter (\<lambda>c. \<not> (c \<in> set cs \<and> wt c m)) (clients d),
       out := out d @ map (broadcast_effect wt m) cs\<rparr>"
  by (rule daemon.equality) (simp_all add: broadcast_loop_out broadcast_loop_clients broadcast_loop_frame)

lemma broadcastToClients_eq:
  "broadcastToClients e m d =
     d\<lparr>clients := filter (\<lambda>c. \<not> write_throws e c m) (clients d),
       out := out d @ map (broadcast_effect (write_throws e) m) (clients d)\<rparr>"
  unfolding broadcastToClients_def broadcast_loop_eq
  by (rule daemon.equality) (auto intro: filter_cong)


lemma new_effects_append [simp]:
  "out d' = out d @ xs \<Longrightarrow> new_effects d d' = xs"
  by (simp add: new_effects_def)

lemma deliveries_append [simp]:
  "deliveries c (xs @ ys) = deliveries c xs @ deliveries c ys"
  by (induction c xs rule: deliveries.induct) simp_all

lemma deliveries_broadcast:
  "distinct cs \<Longrightarrow>
     deliveries c (map (broadcast_effect wt m) cs) = (if c \<in> set cs \<and> \<not> wt c m then [m] else [])"
  by (induction cs) (auto simp: broadcast_effect_def)

lemma deliveries_broadcast_absent:
  "c \<notin> set cs \<Longrightarrow> deliveries c (map (broadcast_effect wt m) cs) = []"
  by (induction cs) (auto simp: broadcast_effect_def)


text \<open>
  Claim C5. A broadcast writes the message exactly once on every registered client whose
  write does not throw, whatever the other writes do; a client whose write throws gets
  nothing, is removed from the set, and gets nothing from any later broadcast.
\<close>

theorem broadcast_delivery:
  assumes "distinct (clients d)"
  shows "clients (broadcastToClients e message d) = filter (\<lambda>c. \<not> write_throws e c message) (clients d) \<and>
         (\<forall>c \<in> set (clients d). \<not> write_throws e c message \<longrightarrow>
            deliveries c (new_effects d (broadcastToClients e message d)) = [message]) \<and>
         (\<forall>c \<in> set (clients d). write_throws e c message \<longrightarrow>
            deliveries c (new_effects d (broadcastToClients e message d)) = [] \<and>
            c \<notin> set (clients (broadcastToClients e message d)) \<and>
            (\<forall>e' message'.
               deliveries c (new_effects (broadcastToClients e message d)
                  (broadcastToClients e' message' (broadcastToClients e message d))) = []))"
proof -
  let ?d' = "broadcastToClients e message d"
  have out: "out ?d' = out d @ map (broadcast_effect (write_throws e) message) (clients d)"
    by (simp add: broadcastToClients_eq)
  have cl: "clients ?d' = filter (\<lambda>c. \<not> write_throws e c message) (clients d)"
    by (simp add: broadcastToClients_eq)
  have ne: "new_effects d ?d' = map (broadcast_effect (write_throws e) message) (clients d)"
    using out by simp
  have later: "deliveries c (new_effects ?d' (broadcastToClients e' message' ?d')) = []"
    if "write_throws e c message" for c e' message'
  proof -
    have "c \<notin> set (clients ?d')" using that by (simp add: cl)
    moreover have "new_effects ?d' (broadcastToClients e' message' ?d')
        = map (broadcast_effect (write_throws e') message') (clients ?d')"
      by (simp add: broadcastToClients_eq [of e' message' ?d'])
    ultimately show ?thesis by (simp add: deliveries_broadcast_absent)
  qed
  show ?thesis
    using assms later by (simp add: ne cl deliveries_broadcast)
qed

theorem broadcast_delivery_witness:
  "distinct (clients (initial\<lparr>clients := [1, 2, 3]\<rparr>)) \<and>
   clients (broadcastToClients (env0\<lparr>write_throws := (\<lambda>c m. c = 2)\<rparr>) (JStr ''hi'') (initial\<lparr>clients := [1, 2, 3]\<rparr>))
     = [1, 3] \<and>
   out (broadcastToClients (env0\<lparr>write_throws := (\<lambda>c m. c = 2)\<rparr>) (JStr ''hi'') (initial\<lparr>clients := [1, 2, 3]\<rparr>))
     = [Write 1 (JStr ''hi''), Log Error ''Error broadcasting to client: '' [], Write 3 (JStr ''hi'')] \<and>
   deliveries 3 (new_effects (initial\<lparr>clients := [1, 2, 3]\<rparr>)
     (broadcastToClients (env0\<lparr>write_throws := (\<lambda>c m. c = 2)\<rparr>) (JStr ''hi'') (initial\<lparr>clients := [1, 2, 3]\<rparr>)))
     = [JStr ''hi''] \<and>
   deliveries 2 (new_effects (initial\<lparr>clients := [1, 2, 3]\<rparr>)
     (broadcastToClients (env0\<lparr>write_throws := (\<lambda>c m. c = 2)\<rparr>) (JStr ''hi'') (initial\<lparr>clients := [1, 2, 3]\<rparr>)))
     = []"
  using broadcast_delivery [of "initial\<lparr>clients := [1, 2, 3]\<rparr>" "env0\<lparr>write_throws := (\<lambda>c m. c = 2)\<rparr>" "JStr ''hi''"]
  by (simp add: initial_def env0_def broadcastToClients_def log_def new_effects_def)

section \<open>Deduplication\<close>

lemma map_of_filter_keep:
  "map_of xs k = Some v \<Longrightarrow> P (k, v) \<Longrightarrow> map_of (filter P xs) k = Some v"
  by (induction xs) (auto split: if_splits)

lemma dedup_gate_iff:
  "dedup_gate cache key t cd \<longleftrightarrow>
     (map_of cache key = None \<or> (\<exists>t0. map_of cache key = Some t0 \<and> t - t0 > cd))"
  by (auto simp: dedup_gate_def cache_has_def cache_get_def split: option.splits)

lemma logWithDeduplication_cd_suppress:
  "\<not> dedup_gate (messageCache d) key (now e) cd \<Longrightarrow>
     logWithDeduplication_cd cd e msg args lvl key d = d"
  by (simp add: logWithDeduplication_cd_def)

lemma logWithDeduplication_cd_emit:
  assumes "dedup_gate (messageCache d) key (now e) cd" and "0 \<le> cd"
  shows "out (logWithDeduplication_cd cd e msg args lvl key d) = out d @ [Log lvl msg args]"
    and "map_of (messageCache (logWithDeduplication_cd cd e msg args lvl key d)) key = Some (now e)"
proof -
  show "out (logWithDeduplication_cd cd e msg args lvl key d) = out d @ [Log lvl msg args]"
    using assms by (simp add: logWithDeduplication_cd_def log_def Let_def)
  have "map_of (AList.update key (now e) (messageCache d)) key = Some (now e)"
    by (simp add: update_conv')
  then show "map_of (messageCache (logWithDeduplication_cd cd e msg args lvl key d)) key = Some (now e)"
    using assms by (simp add: logWithDeduplication_cd_def log_def Let_def map_of_filter_keep)
qed

lemma logWithDeduplication_cd_frame:
  "connected (logWithDeduplication_cd cd e msg args lvl key d) = connected d"
  "clientId (logWithDeduplication_cd cd e msg args lvl key d) = clientId d"
  "currentTask (logWithDeduplication_cd cd e msg args lvl key d) = currentTask d"
  "clients (logWithDeduplication_cd cd e msg args lvl key d) = clients d"
  "messageHistory (logWithDeduplication_cd cd e msg args lvl key d) = messageHistory d"
  by (simp_all add: logWithDeduplication_cd_def log_def Let_def)

text \<open>
  Claim C2. The check of \<^verbatim>\<open>logWithDeduplication\<close> emits (the line is logged, and the clock's
  time is recorded against the key) exactly when the cache has no record for the key or the
  record is more than the cooldown old; otherwise nothing is logged and the state, the
  recorded time included, stays as it was. So of three calls with one key, the first
  emitting, the second within the cooldown of the first and the third more than the
  cooldown after it, the first and the third emit and the second does not. The cooldown is
  the parameter of \<open>logWithDeduplication_cd\<close>, which the source fixes to 3000.
\<close>

theorem dedup_check:
  assumes "0 \<le> cd"
  shows
    "((map_of (messageCache d) key = None \<or>
        (\<exists>t0. map_of (messageCache d) key = Some t0 \<and> now e - t0 > cd)) \<longrightarrow>
        out (logWithDeduplication_cd cd e msg args lvl key d) = out d @ [Log lvl msg args] \<and>
        map_of (messageCache (logWithDeduplication_cd cd e msg args lvl key d)) key = Some (now e)) \<and>
     (\<not> (map_of (messageCache d) key = None \<or>
        (\<exists>t0. map_of (messageCache d) key = Some t0 \<and> now e - t0 > cd)) \<longrightarrow>
        logWithDeduplication_cd cd e msg args lvl key d = d) \<and>
     ((map_of (messageCache d) key = None \<or>
        (\<exists>t0. map_of (messageCache d) key = Some t0 \<and> now e - t0 > cd)) \<and>
      now e2 - now e \<le> cd \<and> now e3 - now e > cd \<longrightarrow>
        out (logWithDeduplication_cd cd e msg args lvl key d) = out d @ [Log lvl msg args] \<and>
        logWithDeduplication_cd cd e2 msg2 args2 lvl2 key (logWithDeduplication_cd cd e msg args lvl key d)
          = logWithDeduplication_cd cd e msg args lvl key d \<and>
        out (logWithDeduplication_cd cd e3 msg3 args3 lvl3 key
               (logWithDeduplication_cd cd e2 msg2 args2 lvl2 key (logWithDeduplication_cd cd e msg args lvl key d)))
          = out d @ [Log lvl msg args, Log lvl3 msg3 args3])"
proof -
  let ?G = "map_of (messageCache d) key = None \<or>
        (\<exists>t0. map_of (messageCache d) key = Some t0 \<and> now e - t0 > cd)"
  let ?d1 = "logWithDeduplication_cd cd e msg args lvl key d"
  have emit: "out ?d1 = out d @ [Log lvl msg args] \<and> map_of (messageCache ?d1) key = Some (now e)" if ?G
    using that assms logWithDeduplication_cd_emit [of d key e cd msg args lvl]
    by (simp add: dedup_gate_iff)
  have suppress: "?d1 = d" if "\<not> ?G"
    using that by (simp add: logWithDeduplication_cd_suppress dedup_gate_iff)
  have seq: "out ?d1 = out d @ [Log lvl msg args] \<and>
        logWithDeduplication_cd cd e2 msg2 args2 lvl2 key ?d1 = ?d1 \<and>
        out (logWithDeduplication_cd cd e3 msg3 args3 lvl3 key
               (logWithDeduplication_cd cd e2 msg2 args2 lvl2 key ?d1))
          = out d @ [Log lvl msg args, Log lvl3 msg3 args3]"
    if g: ?G and t2: "now e2 - now e \<le> cd" and t3: "now e3 - now e > cd"
  proof -
    have rec: "map_of (messageCache ?d1) key = Some (now e)" and o1: "out ?d1 = out d @ [Log lvl msg args]"
      using emit [OF g] by simp_all
    have "\<not> dedup_gate (messageCache ?d1) key (now e2) cd"
      using rec t2 by (simp add: dedup_gate_iff)
    then have second: "logWithDeduplication_cd cd e2 msg2 args2 lvl2 key ?d1 = ?d1"
      by (rule logWithDeduplication_cd_suppress)
    have "dedup_gate (messageCache ?d1) key (now e3) cd"
      using rec t3 by (simp add: dedup_gate_iff)
    then have "out (logWithDeduplication_cd cd e3 msg3 args3 lvl3 key ?d1) = out ?d1 @ [Log lvl3 msg3 args3]"
      using assms by (rule logWithDeduplication_cd_emit(1))
    then show ?thesis using o1 second by simp
  qed
  show ?thesis using emit suppress seq by blast
qed

theorem dedup_check_witness:
  "(0::int) \<le> 3000 \<and>
   map_of (messageCache initial) ''Hello'' = None \<and>
   now (env0\<lparr>now := 2000\<rparr>) - now (env0\<lparr>now := 1000\<rparr>) \<le> 3000 \<and>
   now (env0\<lparr>now := 4001\<rparr>) - now (env0\<lparr>now := 1000\<rparr>) > 3000 \<and>
   out (logWithDeduplication (env0\<lparr>now := 1000\<rparr>) ''Roo: '' [JStr ''Hello''] Info ''Hello'' initial)
     = [Log Info ''Roo: '' [JStr ''Hello'']] \<and>
   logWithDeduplication (env0\<lparr>now := 2000\<rparr>) ''Roo: '' [JStr ''Hello''] Info ''Hello''
       (logWithDeduplication (env0\<lparr>now := 1000\<rparr>) ''Roo: '' [JStr ''Hello''] Info ''Hello'' initial)
     = logWithDeduplication (env0\<lparr>now := 1000\<rparr>) ''Roo: '' [JStr ''Hello''] Info ''Hello'' initial \<and>
   out (logWithDeduplication (env0\<lparr>now := 4001\<rparr>) ''Roo: '' [JStr ''Hello''] Info ''Hello''
         (logWithDeduplication (env0\<lparr>now := 2000\<rparr>) ''Roo: '' [JStr ''Hello''] Info ''Hello''
           (logWithDeduplication (env0\<lparr>now := 1000\<rparr>) ''Roo: '' [JStr ''Hello''] Info ''Hello'' initial)))
     = [Log Info ''Roo: '' [JStr ''Hello''], Log Info ''Roo: '' [JStr ''Hello'']]"
  using dedup_check [where cd = 3000 and d = initial and key = "''Hello''"
      and e = "env0\<lparr>now := 1000\<rparr>" and ?e2.0 = "env0\<lparr>now := 2000\<rparr>" and ?e3.0 = "env0\<lparr>now := 4001\<rparr>"
      and msg = "''Roo: ''" and args = "[JStr ''Hello'']" and lvl = Info
      and ?msg2.0 = "''Roo: ''" and ?args2.0 = "[JStr ''Hello'']" and ?lvl2.0 = Info
      and ?msg3.0 = "''Roo: ''" and ?args3.0 = "[JStr ''Hello'']" and ?lvl3.0 = Info]
  by (simp add: logWithDeduplication_def logWithDeduplication_cd_def dedup_gate_def cache_has_def cache_get_def log_def initial_def env0_def)

section \<open>What the upstream handlers leave alone\<close>

lemma logs_only_refl [simp]: "logs_only d d"
  by (simp add: logs_only_def)

lemma logs_only_trans: "logs_only d d1 \<Longrightarrow> logs_only d1 d2 \<Longrightarrow> logs_only d d2"
  by (auto simp: logs_only_def)

lemma logs_only_log [simp]: "logs_only d (log lvl text args d)"
  by (simp add: logs_only_def log_def)

lemma logs_only_upd [simp]:
  "logs_only d (d'\<lparr>currentTask := t\<rparr>) = logs_only d d'"
  "logs_only d (d'\<lparr>messageCache := c\<rparr>) = logs_only d d'"
  "logs_only (d\<lparr>currentTask := t\<rparr>) d' = logs_only d d'"
  "logs_only (d\<lparr>messageCache := c\<rparr>) d' = logs_only d d'"
  by (simp_all add: logs_only_def)

lemma logs_only_log' [simp]: "logs_only d d' \<Longrightarrow> logs_only d (log lvl text args d')"
  by (rule logs_only_trans [OF _ logs_only_log])

lemma logs_only_dedup [simp]:
  "logs_only d d' \<Longrightarrow> logs_only d (logWithDeduplication_cd cd e text args lvl key d')"
  by (simp add: logWithDeduplication_cd_def Let_def)

lemma logs_only_suggest_loop:
  "logs_only d d' \<Longrightarrow> logs_only d (result_state (suggest_loop e xs i d'))"
  by (induction e xs i d' rule: suggest_loop.induct) (simp_all add: Let_def)

lemma logs_only_formatQuestionMessage:
  assumes "logs_only d d'"
  shows "logs_only d (result_state (formatQuestionMessage e q d'))"
proof -
  have loop: "logs_only d (result_state (suggest_loop e xs 0 (log Info ''Suggestions:'' [] (log Warn [] [get_prop q ''question''] d'))))" for xs
    by (rule logs_only_suggest_loop) (simp add: assms)
  have l1: "logs_only d d1"
    if "suggest_loop e xs 0 (log Info ''Suggestions:'' [] (log Warn [] [get_prop q ''question''] d')) = Ok d1" for xs d1
    using loop [of xs] that by simp
  have l2: "logs_only d d1"
    if "suggest_loop e xs 0 (log Info ''Suggestions:'' [] (log Warn [] [get_prop q ''question''] d')) = Throw err d1" for xs d1 err
    using loop [of xs] that by simp
  show ?thesis
    using assms
    by (auto simp: formatQuestionMessage_def Let_def l1 l2 split: jsval.splits result.splits)
qed

lemma logs_only_formatAndLogMessage:
  assumes "logs_only d d'"
  shows "logs_only d (result_state (formatAndLogMessage e m d'))"
proof -
  have q: "logs_only d (result_state (formatQuestionMessage e q d'))" for q
    by (rule logs_only_formatQuestionMessage [OF assms])
  have q1: "logs_only d d1" if "formatQuestionMessage e q d' = Ok d1" for q d1
    using q [of q] that by simp
  have q2: "logs_only d d1" if "formatQuestionMessage e q d' = Throw err d1" for q d1 err
    using q [of q] that by simp
  show ?thesis
    using assms
    by (auto simp: formatAndLogMessage_def logWithDeduplication_def Let_def q1 q2
        split: jsval.splits option.splits result.splits)
qed

lemma logs_only_handleTaskEvent:
  assumes "logs_only d d'"
  shows "logs_only d (result_state (handleTaskEvent e ev d'))"
  using assms logs_only_formatAndLogMessage [OF assms]
  by (auto simp: handleTaskEvent_def Let_def split: option.splits)


section \<open>The message history\<close>

lemma length_slice_last: "length (slice_last n xs) = min n (length xs)"
  by (simp add: slice_last_def)

lemma slice_last_absorb: "slice_last n (slice_last n xs @ ys) = slice_last n (xs @ ys)"
proof (cases "length xs \<le> n")
  case True
  then show ?thesis by (simp add: slice_last_def)
next
  case False
  then have "length xs + length ys - n = (length xs - n) + length ys" by simp
  then show ?thesis using False by (simp add: slice_last_def add.commute)
qed

lemma history_step: "(if length h > n then slice_last n h else h) = slice_last n h"
  by (simp add: slice_last_def)

lemma dispatchIPC_history:
  "messageHistory (result_state (dispatchIPC e msg d)) = messageHistory d"
proof -
  have "logs_only d (result_state (handleTaskEvent e ev d))" for ev
    by (rule logs_only_handleTaskEvent) simp
  then have "messageHistory (result_state (handleTaskEvent e ev d)) = messageHistory d" for ev
    by (simp add: logs_only_def)
  then show ?thesis
    by (simp add: dispatchIPC_def Let_def broadcastToClients_eq log_def)
qed

lemma onIPCMessage_history:
  "messageHistory (result_state (onIPCMessage e msg d)) =
     (if returned (onIPCMessage e msg d) then slice_last 1000 (messageHistory d @ [msg]) else messageHistory d)"
proof (cases "nullish msg")
  case True
  then show ?thesis by (simp add: onIPCMessage_def)
next
  case False
  let ?d0 = "log Info ''Received IPC message: '' [get_prop msg ''type''] d"
  have h: "messageHistory (result_state (dispatchIPC e msg ?d0)) = messageHistory d"
    by (simp add: dispatchIPC_history) (simp add: log_def)
  show ?thesis
  proof (cases "dispatchIPC e msg ?d0")
    case (Ok d1)
    then show ?thesis using False h
      by (simp add: onIPCMessage_def Let_def history_step broadcastToClients_eq)
  next
    case (Throw err d1)
    then show ?thesis using False h by (simp add: onIPCMessage_def)
  qed
qed

lemma run_ipc_history:
  "run_ipc ms d = Ok d' \<Longrightarrow> length (messageHistory d) \<le> 1000 \<Longrightarrow>
     messageHistory d' = slice_last 1000 (messageHistory d @ map snd ms)"
proof (induction ms arbitrary: d)
  case Nil
  then show ?case by (simp add: slice_last_def)
next
  case (Cons a ms)
  obtain e msg where a: "a = (e, msg)" by (cases a)
  show ?case
  proof (cases "onIPCMessage e msg d")
    case (Ok d1)
    then have h1: "messageHistory d1 = slice_last 1000 (messageHistory d @ [msg])"
      using onIPCMessage_history [of e msg d] by simp
    then have "length (messageHistory d1) \<le> 1000"
      by (simp add: length_slice_last)
    moreover have "run_ipc ms d1 = Ok d'" using Cons.prems Ok a by simp
    ultimately show ?thesis
      using Cons.IH [of d1] h1 by (simp add: a slice_last_absorb)
  next
    case (Throw err d1)
    then show ?thesis using Cons.prems a by simp
  qed
qed

text \<open>
  Claim C9. \<^verbatim>\<open>onIPCMessage\<close>, when it returns, leaves as history the last 1000 entries of the
  history it found followed by the message, so at most 1000 entries; when it throws, the
  history is as it found it. After a run of messages from the initial state, the history is
  the last 1000 messages received.
\<close>

theorem history_bounded:
  "(onIPCMessage e msg d = Ok d' \<longrightarrow>
      messageHistory d' = slice_last 1000 (messageHistory d @ [msg]) \<and>
      length (messageHistory d') \<le> 1000) \<and>
   (onIPCMessage e msg d = Throw err d' \<longrightarrow> messageHistory d' = messageHistory d) \<and>
   (run_ipc ms initial = Ok d'' \<longrightarrow>
      messageHistory d'' = slice_last 1000 (map snd ms) \<and>
      length (messageHistory d'') \<le> 1000)"
proof -
  have one: "messageHistory d' = slice_last 1000 (messageHistory d @ [msg])" if "onIPCMessage e msg d = Ok d'"
    using onIPCMessage_history [of e msg d] that by simp
  have thrown: "messageHistory d' = messageHistory d" if "onIPCMessage e msg d = Throw err d'"
    using onIPCMessage_history [of e msg d] that by simp
  have run: "messageHistory d'' = slice_last 1000 (map snd ms)" if "run_ipc ms initial = Ok d''"
    using run_ipc_history [OF that] by (simp add: initial_def)
  show ?thesis
    using one thrown run by (auto simp: length_slice_last)
qed



theorem history_bounded_witness:
  "onIPCMessage env0 (JObj [(''type'', JStr ''pong'')]) (initial\<lparr>messageHistory := replicate 1000 JNull\<rparr>)
     = Ok (initial\<lparr>messageHistory := replicate 999 JNull @ [JObj [(''type'', JStr ''pong'')]],
                   out := [Log Info ''Received IPC message: '' [JStr ''pong''],
                           Log Warn ''Unknown IPC message type: '' [JStr ''pong'']]\<rparr>) \<and>
   slice_last 1000 (replicate 1000 JNull @ [JObj [(''type'', JStr ''pong'')]])
     = replicate 999 JNull @ [JObj [(''type'', JStr ''pong'')]] \<and>
   length (replicate 999 JNull @ [JObj [(''type'', JStr ''pong'')]]) \<le> (1000 :: nat)"
proof -
  let ?m = "JObj [(''type'', JStr ''pong'')]"
  let ?d = "initial\<lparr>messageHistory := replicate 1000 JNull\<rparr>"
  let ?d' = "initial\<lparr>messageHistory := replicate 999 JNull @ [?m],
                   out := [Log Info ''Received IPC message: '' [JStr ''pong''],
                           Log Warn ''Unknown IPC message type: '' [JStr ''pong'']]\<rparr>"
  have run: "onIPCMessage env0 ?m ?d = Ok ?d'"
    by (simp add: onIPCMessage_def dispatchIPC_def Let_def log_def initial_def env0_def
        broadcastToClients_def slice_last_def)
  have sl: "slice_last 1000 (replicate 1000 JNull @ [?m]) = replicate 999 JNull @ [?m]"
    by (simp add: slice_last_def)
  have "messageHistory ?d' = slice_last 1000 (messageHistory ?d @ [?m]) \<and>
        length (messageHistory ?d') \<le> 1000"
    using run history_bounded [of env0 ?m ?d ?d'] by blast
  then show ?thesis using run sl by simp
qed

section \<open>Upstream messages and the broadcast\<close>






lemma count_logs_append [simp]:
  "count_logs label (xs @ ys) = count_logs label xs + count_logs label ys"
  by (induction label xs rule: count_logs.induct) simp_all

lemma count_logs_broadcast [simp]:
  "count_logs ''Roo: '' (map (broadcast_effect wt m) cs) = 0"
  by (induction cs) (simp_all add: broadcast_effect_def)







section \<open>Commands while the upstream link is not ready\<close>

lemma deliveries_map_absent:
  "c \<notin> set cs \<Longrightarrow>
     deliveries c (map (\<lambda>x. if wt x then Log Error label [] else Write x m) cs) = []"
  by (induction cs) auto

lemma deliveries_map_present:
  "distinct cs \<Longrightarrow> c \<in> set cs \<Longrightarrow>
     deliveries c (map (\<lambda>x. if wt x then Log Error label [] else Write x m) cs)
       = (if wt c then [] else [m])"
  by (induction cs) (auto simp: deliveries_map_absent)

lemma no_emit_in_broadcast:
  "IpcEmit m' \<notin> set (map (\<lambda>x. if wt x then Log Error label [] else Write x m) cs)"
  by (induction cs) auto

text \<open>
  Claim C6, as the code has it. \<^verbatim>\<open>sendTaskToRoo\<close> does not know who asked: while the daemon is
  not connected, or connected with no truthy client id, it logs an error and broadcasts an
  object of type \<^verbatim>\<open>error\<close> whose data is the message "Not connected to Roo Code" (not
  connected) or "Connection not fully established" (no client id) to the set of clients, and
  does nothing else. The state differs only by these effects and by the clients whose write
  threw, so the command is stored nowhere; nothing is emitted upstream; every client of the
  set gets the error object once, unless its write throws; a socket that is not in the set
  gets nothing.
\<close>

theorem sendTask_not_ready:
  "(\<not> connected d \<longrightarrow>
      sendTaskToRoo e text cwd d =
        d\<lparr>clients := filter (\<lambda>c. \<not> write_throws e c
                 (JObj [(''type'', JStr ''error''),
                        (''data'', JObj [(''message'', JStr ''Not connected to Roo Code'')])])) (clients d),
          out := out d @ Log Error ''Cannot send task: not connected to Roo Code'' [] #
                 map (\<lambda>c. if write_throws e c
                              (JObj [(''type'', JStr ''error''),
                                     (''data'', JObj [(''message'', JStr ''Not connected to Roo Code'')])])
                           then Log Error ''Error broadcasting to client: '' []
                           else Write c (JObj [(''type'', JStr ''error''),
                                               (''data'', JObj [(''message'', JStr ''Not connected to Roo Code'')])]))
                     (clients d)\<rparr> \<and>
      (distinct (clients d) \<longrightarrow>
         (\<forall>c \<in> set (clients d).
            deliveries c (new_effects d (sendTaskToRoo e text cwd d)) =
              (if write_throws e c
                    (JObj [(''type'', JStr ''error''),
                           (''data'', JObj [(''message'', JStr ''Not connected to Roo Code'')])])
               then []
               else [JObj [(''type'', JStr ''error''),
                           (''data'', JObj [(''message'', JStr ''Not connected to Roo Code'')])]])))) \<and>
   (connected d \<and> \<not> truthy (clientId d) \<longrightarrow>
      sendTaskToRoo e text cwd d =
        d\<lparr>clients := filter (\<lambda>c. \<not> write_throws e c
                 (JObj [(''type'', JStr ''error''),
                        (''data'', JObj [(''message'', JStr ''Connection not fully established'')])])) (clients d),
          out := out d @ Log Error ''Cannot send task: no client ID'' [] #
                 map (\<lambda>c. if write_throws e c
                              (JObj [(''type'', JStr ''error''),
                                     (''data'', JObj [(''message'', JStr ''Connection not fully established'')])])
                           then Log Error ''Error broadcasting to client: '' []
                           else Write c (JObj [(''type'', JStr ''error''),
                                               (''data'', JObj [(''message'', JStr ''Connection not fully established'')])]))
                     (clients d)\<rparr> \<and>
      (distinct (clients d) \<longrightarrow>
         (\<forall>c \<in> set (clients d).
            deliveries c (new_effects d (sendTaskToRoo e text cwd d)) =
              (if write_throws e c
                    (JObj [(''type'', JStr ''error''),
                           (''data'', JObj [(''message'', JStr ''Connection not fully established'')])])
               then []
               else [JObj [(''type'', JStr ''error''),
                           (''data'', JObj [(''message'', JStr ''Connection not fully established'')])]])))) \<and>
   (\<not> connected d \<or> \<not> truthy (clientId d) \<longrightarrow>
      (\<forall>m. IpcEmit m \<notin> set (new_effects d (sendTaskToRoo e text cwd d))) \<and>
      (\<forall>c. c \<notin> set (clients d) \<longrightarrow> deliveries c (new_effects d (sendTaskToRoo e text cwd d)) = []))"
proof -
  let ?NC = "JObj [(''type'', JStr ''error''), (''data'', JObj [(''message'', JStr ''Not connected to Roo Code'')])]"
  let ?NE = "JObj [(''type'', JStr ''error''),
                   (''data'', JObj [(''message'', JStr ''Connection not fully established'')])]"
  let ?B = "\<lambda>M. map (\<lambda>c. if write_throws e c M then Log Error ''Error broadcasting to client: '' []
                           else Write c M) (clients d)"
  have b: "map (broadcast_effect (write_throws e) M) cs =
           map (\<lambda>c. if write_throws e c M then Log Error ''Error broadcasting to client: '' []
                           else Write c M) cs" for M cs
    by (simp add: broadcast_effect_def)
  have nc: "sendTaskToRoo e text cwd d =
        d\<lparr>clients := filter (\<lambda>c. \<not> write_throws e c ?NC) (clients d),
          out := out d @ Log Error ''Cannot send task: not connected to Roo Code'' [] # ?B ?NC\<rparr>"
    if "\<not> connected d"
    using that by (simp add: sendTaskToRoo_def broadcastToClients_eq log_def b)
  have ne: "sendTaskToRoo e text cwd d =
        d\<lparr>clients := filter (\<lambda>c. \<not> write_throws e c ?NE) (clients d),
          out := out d @ Log Error ''Cannot send task: no client ID'' [] # ?B ?NE\<rparr>"
    if "connected d" and "\<not> truthy (clientId d)"
    using that by (simp add: sendTaskToRoo_def broadcastToClients_eq log_def b)
  have nc_new: "new_effects d (sendTaskToRoo e text cwd d) =
        Log Error ''Cannot send task: not connected to Roo Code'' [] # ?B ?NC" if "\<not> connected d"
    by (rule new_effects_append) (simp add: nc [OF that])
  have ne_new: "new_effects d (sendTaskToRoo e text cwd d) =
        Log Error ''Cannot send task: no client ID'' [] # ?B ?NE"
    if "connected d" and "\<not> truthy (clientId d)"
    by (rule new_effects_append) (simp add: ne [OF that])
  have part1: "\<not> connected d \<longrightarrow>
      sendTaskToRoo e text cwd d =
        d\<lparr>clients := filter (\<lambda>c. \<not> write_throws e c ?NC) (clients d),
          out := out d @ Log Error ''Cannot send task: not connected to Roo Code'' [] # ?B ?NC\<rparr> \<and>
      (distinct (clients d) \<longrightarrow>
         (\<forall>c \<in> set (clients d).
            deliveries c (new_effects d (sendTaskToRoo e text cwd d)) =
              (if write_throws e c ?NC then [] else [?NC])))"
    using nc by (simp add: nc_new deliveries_map_present)
  have part2: "connected d \<and> \<not> truthy (clientId d) \<longrightarrow>
      sendTaskToRoo e text cwd d =
        d\<lparr>clients := filter (\<lambda>c. \<not> write_throws e c ?NE) (clients d),
          out := out d @ Log Error ''Cannot send task: no client ID'' [] # ?B ?NE\<rparr> \<and>
      (distinct (clients d) \<longrightarrow>
         (\<forall>c \<in> set (clients d).
            deliveries c (new_effects d (sendTaskToRoo e text cwd d)) =
              (if write_throws e c ?NE then [] else [?NE])))"
    using ne by (simp add: ne_new deliveries_map_present)
  have part3: "\<not> connected d \<or> \<not> truthy (clientId d) \<longrightarrow>
      (\<forall>m. IpcEmit m \<notin> set (new_effects d (sendTaskToRoo e text cwd d))) \<and>
      (\<forall>c. c \<notin> set (clients d) \<longrightarrow> deliveries c (new_effects d (sendTaskToRoo e text cwd d)) = [])"
  proof (cases "connected d")
    case False
    then show ?thesis
      by (auto simp: nc_new deliveries_map_absent)
  next
    case True
    then show ?thesis
      by (auto simp: ne_new deliveries_map_absent)
  qed
  show ?thesis using part1 part2 part3 by blast
qed


theorem sendTask_not_ready_witness:
  "connected (initial\<lparr>clients := [1, 2]\<rparr>) = False \<and>
   truthy (clientId (initial\<lparr>connected := True, clients := [1, 2]\<rparr>)) = False \<and>
   distinct (clients (initial\<lparr>clients := [1, 2]\<rparr>)) \<and>
   sendTaskToRoo env0 (JStr ''fix the bug'') JUndefined (initial\<lparr>clients := [1, 2]\<rparr>) =
     initial\<lparr>clients := [1, 2],
       out := [Log Error ''Cannot send task: not connected to Roo Code'' [],
               Write 1 (JObj [(''type'', JStr ''error''), (''data'', JObj [(''message'', JStr ''Not connected to Roo Code'')])]),
               Write 2 (JObj [(''type'', JStr ''error''), (''data'', JObj [(''message'', JStr ''Not connected to Roo Code'')])])]\<rparr> \<and>
   deliveries 2 (new_effects (initial\<lparr>clients := [1, 2]\<rparr>) (sendTaskToRoo env0 (JStr ''fix the bug'') JUndefined (initial\<lparr>clients := [1, 2]\<rparr>))) = [JObj [(''type'', JStr ''error''), (''data'', JObj [(''message'', JStr ''Not connected to Roo Code'')])]] \<and>
   deliveries 3 (new_effects (initial\<lparr>clients := [1, 2]\<rparr>) (sendTaskToRoo env0 (JStr ''fix the bug'') JUndefined (initial\<lparr>clients := [1, 2]\<rparr>))) = [] \<and>
   sendTaskToRoo env0 (JStr ''fix the bug'') JUndefined (initial\<lparr>connected := True, clients := [1, 2]\<rparr>) =
     initial\<lparr>connected := True, clients := [1, 2],
       out := [Log Error ''Cannot send task: no client ID'' [],
               Write 1 (JObj [(''type'', JStr ''error''), (''data'', JObj [(''message'', JStr ''Connection not fully established'')])]),
               Write 2 (JObj [(''type'', JStr ''error''), (''data'', JObj [(''message'', JStr ''Connection not fully established'')])])]\<rparr>"
  using sendTask_not_ready [of "initial\<lparr>clients := [1, 2]\<rparr>" env0 "JStr ''fix the bug''" JUndefined]
    sendTask_not_ready [of "initial\<lparr>connected := True, clients := [1, 2]\<rparr>" env0 "JStr ''fix the bug''" JUndefined]
  by (simp add: initial_def env0_def new_effects_def)


text \<open>
  Claim C6 as stated fails for a requester that is no longer in the set of clients: socket 1
  connects, a write to it throws during the broadcast of the upstream connect and removes
  it from the set, and its \<^verbatim>\<open>sendTask\<close>, sent while no client id is assigned, is answered
  with a console line only.
\<close>

theorem sendTask_error_misses_requester:
  "clients (handleClientConnection env0 1 initial) = [1] \<and>
   clients (onIPCConnect env_writes_fail (handleClientConnection env0 1 initial)) = [] \<and>
   onIPCConnect env_writes_fail (handleClientConnection env0 1 initial) =
     initial\<lparr>connected := True,
       out := [Log Success ''CLI client connected: '' [JNum 1],
              Write 1 (JObj [(''type'', JStr ''welcome''),
                             (''data'', JObj [(''connected'', JBool False), (''clientId'', JNull),
                                              (''currentTask'', JNull), (''messageHistory'', JArr [])])]),
              Write 1 (JObj [(''type'', JStr ''status''),
                             (''data'', JObj [(''connected'', JBool False),
                                              (''message'', JStr ''Not connected to Roo IPC - check ROO_CODE_IPC_SOCKET_PATH'')])]),
              Log Success ''Connected to Roo Code IPC server'' [],
              Log Error ''Error broadcasting to client: '' []]\<rparr> \<and>
   handleClientMessage env0 1
       (JObj [(''type'', JStr ''sendTask''), (''data'', JObj [(''text'', JStr ''fix the bug'')])])
       (initial\<lparr>connected := True,
          out := [Log Success ''CLI client connected: '' [JNum 1],
              Write 1 (JObj [(''type'', JStr ''welcome''),
                             (''data'', JObj [(''connected'', JBool False), (''clientId'', JNull),
                                              (''currentTask'', JNull), (''messageHistory'', JArr [])])]),
              Write 1 (JObj [(''type'', JStr ''status''),
                             (''data'', JObj [(''connected'', JBool False),
                                              (''message'', JStr ''Not connected to Roo IPC - check ROO_CODE_IPC_SOCKET_PATH'')])]),
              Log Success ''Connected to Roo Code IPC server'' [],
              Log Error ''Error broadcasting to client: '' []]\<rparr>) =
     Ok (initial\<lparr>connected := True,
           out := [Log Success ''CLI client connected: '' [JNum 1],
              Write 1 (JObj [(''type'', JStr ''welcome''),
                             (''data'', JObj [(''connected'', JBool False), (''clientId'', JNull),
                                              (''currentTask'', JNull), (''messageHistory'', JArr [])])]),
              Write 1 (JObj [(''type'', JStr ''status''),
                             (''data'', JObj [(''connected'', JBool False),
                                              (''message'', JStr ''Not connected to Roo IPC - check ROO_CODE_IPC_SOCKET_PATH'')])]),
              Log Success ''Connected to Roo Code IPC server'' [],
              Log Error ''Error broadcasting to client: '' [],
              Log Error ''Cannot send task: no client ID'' []]\<rparr>) \<and>
   deliveries 1 [Log Error ''Cannot send task: no client ID'' []] = []"
  by (simp add: handleClientMessage_def sendTaskToRoo_def onIPCConnect_def handleClientConnection_def
      sendToClient_def set_add_def broadcastToClients_def log_def Let_def slice_last_def
      initial_def env0_def env_writes_fail_def)

section \<open>Registration on the IPC server\<close>

lemma update_fresh:
  "map_of xs k = None \<Longrightarrow> AList.update k v xs = xs @ [(k, v)]"
  by (induction xs) (auto split: if_splits)

lemma onMessage_client:
  assumes "typeof rawdata = ''object''" and "safeParse rawdata = Some (FromClient ty cid dat)"
  shows "onMessage safeParse p rawdata socket s =
     (let s1 = s\<lparr>trace := trace s @
                  [ServerLog ''[server#onMessage] Received data:'' [Value rawdata],
                   ServerLog ''[server#onMessage] Parsed payload:'' [Message (FromClient ty cid dat)]]\<rparr>;
          s2 = register_client p cid socket s1
      in s2\<lparr>trace := trace s2 @ command_effects ty cid dat\<rparr>)"
  using assms by (simp add: onMessage_def server_log_def Let_def command_effects_def)

lemma register_client_fresh:
  assumes "map_of (registry s) cid = None"
  shows "register_client p cid socket s =
     s\<lparr>registry := registry s @ [(cid, socket)],
       trace := trace s @
         [ServerLog ''[server#onMessage] Registered new client: . Total clients: ''
            [Text cid, Count (length (registry s) + 1)],
          ServerLog ''[server#send] message ='' [Message (FromServer Ack (ackData p cid))],
          Emit socket (FromServer Ack (ackData p cid)),
          Event (ConnectEvent cid)]\<rparr>"
  using assms by (simp add: register_client_def send_def server_log_def Let_def update_fresh)

lemma register_client_bound:
  "map_of (registry s) cid \<noteq> None \<Longrightarrow> register_client p cid socket s = s"
  by (auto simp: register_client_def)

text \<open>
  Claim C3. A client message that passes the object test and the schema, with a clientId
  the registry does not hold, adds exactly one entry, binding the clientId to the socket it
  came on; with a clientId the registry holds, the registry stays as it is. Handling a second
  client message with the same clientId, from any socket, leaves the registry as the first
  left it.
\<close>

theorem registration_idempotent:
  assumes "typeof rawdata = ''object''" and "safeParse rawdata = Some (FromClient ty cid dat)"
    and "typeof rawdata' = ''object''" and "safeParse rawdata' = Some (FromClient ty' cid dat')"
  shows
    "(map_of (registry s) cid = None \<longrightarrow>
        registry (onMessage safeParse p rawdata socket s) = registry s @ [(cid, socket)] \<and>
        map_of (registry (onMessage safeParse p rawdata socket s)) cid = Some socket \<and>
        length (registry (onMessage safeParse p rawdata socket s)) = length (registry s) + 1) \<and>
     (map_of (registry s) cid \<noteq> None \<longrightarrow>
        registry (onMessage safeParse p rawdata socket s) = registry s) \<and>
     registry (onMessage safeParse p rawdata' socket' (onMessage safeParse p rawdata socket s))
       = registry (onMessage safeParse p rawdata socket s)"
proof -
  have reg: "registry (onMessage safeParse p r k t) =
      (if map_of (registry t) cid = None then registry t @ [(cid, k)] else registry t)"
    if "typeof r = ''object''" and "safeParse r = Some (FromClient y cid z)" for r k t y z
    using that by (simp add: onMessage_client Let_def register_client_fresh register_client_bound)
  have bound: "map_of (registry (onMessage safeParse p rawdata socket s)) cid \<noteq> None"
    by (simp add: reg [OF assms(1,2)] map_add_Some_iff)
  show ?thesis
    using bound by (auto simp: reg [OF assms(1,2)] reg [OF assms(3,4)])
qed


theorem registration_idempotent_witness:
  "typeof connect_c1 = ''object'' \<and>
   spec_safeParse connect_c1 = Some (FromClient Connect ''c1'' JUndefined) \<and>
   map_of (registry server0) ''c1'' = None \<and>
   registry (onMessage spec_safeParse process0 connect_c1 5 server0) = [(''c1'', 5)] \<and>
   registry (onMessage spec_safeParse process0 connect_c1 6
               (onMessage spec_safeParse process0 connect_c1 5 server0)) = [(''c1'', 5)]"
proof -
  have ty: "typeof connect_c1 = ''object''" and
    parse: "spec_safeParse connect_c1 = Some (FromClient Connect ''c1'' JUndefined)"
    by (simp_all add: connect_c1_def spec_safeParse_def parse_type_def)
  show ?thesis
    using ty parse registration_idempotent [where safeParse = spec_safeParse and rawdata = connect_c1
        and rawdata' = connect_c1 and ty = Connect and ty' = Connect and cid = "''c1''"
        and dat = JUndefined and dat' = JUndefined and s = server0 and p = process0
        and socket = 5 and socket' = 6]
    by (simp add: server0_def)
qed

text \<open>
  Claim C7. On a client message with a fresh clientId the server logs the registration and
  at once sends, on the socket the message came on, an \<^verbatim>\<open>Ack\<close> of origin \<^verbatim>\<open>Server\<close> whose data is
  the object of \<^verbatim>\<open>clientId\<close>, \<^verbatim>\<open>pid\<close> (the process id) and \<^verbatim>\<open>ppid\<close> (the parent's), then emits
  the \<^verbatim>\<open>Connect\<close> event; the handling of the message's own type follows.
\<close>

theorem ack_on_first_registration:
  assumes "typeof rawdata = ''object''" and "safeParse rawdata = Some (FromClient ty cid dat)"
    and "map_of (registry s) cid = None"
  shows "new_trace s (onMessage safeParse p rawdata socket s) =
     [ServerLog ''[server#onMessage] Received data:'' [Value rawdata],
      ServerLog ''[server#onMessage] Parsed payload:'' [Message (FromClient ty cid dat)],
      ServerLog ''[server#onMessage] Registered new client: . Total clients: ''
        [Text cid, Count (length (registry s) + 1)],
      ServerLog ''[server#send] message =''
        [Message (FromServer Ack (JObj [(''clientId'', JStr cid), (''pid'', JNum (pid p)), (''ppid'', JNum (ppid p))]))],
      Emit socket (FromServer Ack (JObj [(''clientId'', JStr cid), (''pid'', JNum (pid p)), (''ppid'', JNum (ppid p))])),
      Event (ConnectEvent cid)] @ command_effects ty cid dat"
  using assms
  by (simp add: onMessage_client Let_def register_client_fresh new_trace_def ackData_def)


theorem ack_on_first_registration_witness:
  "typeof connect_c1 = ''object'' \<and>
   spec_safeParse connect_c1 = Some (FromClient Connect ''c1'' JUndefined) \<and>
   map_of (registry server0) ''c1'' = None \<and>
   new_trace server0 (onMessage spec_safeParse process0 connect_c1 5 server0) =
     [ServerLog ''[server#onMessage] Received data:'' [Value connect_c1],
      ServerLog ''[server#onMessage] Parsed payload:'' [Message (FromClient Connect ''c1'' JUndefined)],
      ServerLog ''[server#onMessage] Registered new client: . Total clients: '' [Text ''c1'', Count 1],
      ServerLog ''[server#send] message =''
        [Message (FromServer Ack (JObj [(''clientId'', JStr ''c1''), (''pid'', JNum 4242), (''ppid'', JNum 1)]))],
      Emit 5 (FromServer Ack (JObj [(''clientId'', JStr ''c1''), (''pid'', JNum 4242), (''ppid'', JNum 1)])),
      Event (ConnectEvent ''c1''),
      ServerLog ''[server#onMessage] unhandled payload:'' [Message (FromClient Connect ''c1'' JUndefined)]]"
proof -
  have ty: "typeof connect_c1 = ''object''" and
    parse: "spec_safeParse connect_c1 = Some (FromClient Connect ''c1'' JUndefined)" and
    fresh: "map_of (registry server0) ''c1'' = None"
    by (simp_all add: connect_c1_def spec_safeParse_def parse_type_def server0_def)
  show ?thesis
    using ty parse fresh ack_on_first_registration [where safeParse = spec_safeParse and rawdata = connect_c1
        and ty = Connect and cid = "''c1''" and dat = JUndefined and s = server0
        and p = process0 and socket = 5]
    by (simp add: server0_def process0_def command_effects_def)
qed

text \<open>
  Claim C10. On a client message whose clientId the registry already holds, whatever socket
  it comes on, nothing is sent on any socket and no \<^verbatim>\<open>Connect\<close> event is emitted: the effects
  are the two log lines and the handling of the message's type, and the registry is
  unchanged.
\<close>

theorem duplicate_registration_silent:
  assumes "typeof rawdata = ''object''" and "safeParse rawdata = Some (FromClient ty cid dat)"
    and "map_of (registry s) cid = Some bound"
  shows "new_trace s (onMessage safeParse p rawdata socket s) =
     [ServerLog ''[server#onMessage] Received data:'' [Value rawdata],
      ServerLog ''[server#onMessage] Parsed payload:'' [Message (FromClient ty cid dat)]]
       @ command_effects ty cid dat \<and>
     list_all (\<lambda>x. \<not> is_emit x) (new_trace s (onMessage safeParse p rawdata socket s)) \<and>
     Event (ConnectEvent cid) \<notin> set (new_trace s (onMessage safeParse p rawdata socket s)) \<and>
     registry (onMessage safeParse p rawdata socket s) = registry s"
  using assms
  by (simp add: onMessage_client Let_def register_client_bound new_trace_def command_effects_def)


theorem duplicate_registration_silent_witness:
  "typeof connect_c1 = ''object'' \<and>
   spec_safeParse connect_c1 = Some (FromClient Connect ''c1'' JUndefined) \<and>
   map_of (registry (server0\<lparr>registry := [(''c1'', 5)]\<rparr>)) ''c1'' = Some 5 \<and>
   new_trace (server0\<lparr>registry := [(''c1'', 5)]\<rparr>)
       (onMessage spec_safeParse process0 connect_c1 6 (server0\<lparr>registry := [(''c1'', 5)]\<rparr>)) =
     [ServerLog ''[server#onMessage] Received data:'' [Value connect_c1],
      ServerLog ''[server#onMessage] Parsed payload:'' [Message (FromClient Connect ''c1'' JUndefined)],
      ServerLog ''[server#onMessage] unhandled payload:'' [Message (FromClient Connect ''c1'' JUndefined)]] \<and>
   registry (onMessage spec_safeParse process0 connect_c1 6 (server0\<lparr>registry := [(''c1'', 5)]\<rparr>))
     = [(''c1'', 5)]"
proof -
  have ty: "typeof connect_c1 = ''object''" and
    parse: "spec_safeParse connect_c1 = Some (FromClient Connect ''c1'' JUndefined)" and
    bound: "map_of (registry (server0\<lparr>registry := [(''c1'', 5)]\<rparr>)) ''c1'' = Some 5"
    by (simp_all add: connect_c1_def spec_safeParse_def parse_type_def server0_def)
  show ?thesis
    using ty parse bound duplicate_registration_silent [where safeParse = spec_safeParse and rawdata = connect_c1
        and ty = Connect and cid = "''c1''" and dat = JUndefined
        and s = "server0\<lparr>registry := [(''c1'', 5)]\<rparr>" and bound = 5 and p = process0 and socket = 6]
    by (simp add: server0_def command_effects_def)
qed

text \<open>
  Claim C8. \<^verbatim>\<open>send\<close> to a clientId the registry does not hold logs its line
  (\<^verbatim>\<open>[server#send] message =\<close> with the message, the line every \<^verbatim>\<open>send\<close> logs) and does nothing
  else: nothing is sent on any socket, and the registry is unchanged.
\<close>

theorem send_unknown_target:
  assumes "map_of (registry s) cid = None"
  shows "send (ById cid) message s =
     s\<lparr>trace := trace s @ [ServerLog ''[server#send] message ='' [Message message]]\<rparr>"
  using assms by (simp add: send_def server_log_def)

theorem send_unknown_target_witness:
  "map_of (registry (server0\<lparr>registry := [(''c1'', 5)]\<rparr>)) ''c2'' = None \<and>
   send (ById ''c2'') (FromServer TaskEvent JNull) (server0\<lparr>registry := [(''c1'', 5)]\<rparr>) =
     server0\<lparr>registry := [(''c1'', 5)],
       trace := [ServerLog ''[server#send] message ='' [Message (FromServer TaskEvent JNull)]]\<rparr>"
proof -
  have none: "map_of (registry (server0\<lparr>registry := [(''c1'', 5)]\<rparr>)) ''c2'' = None"
    by (simp add: server0_def)
  show ?thesis
    using none send_unknown_target [OF none, of "FromServer TaskEvent JNull"]
    by (simp add: server0_def)
qed

section \<open>Malformed messages\<close>



end
